theory Spec2Isabelle
  imports Complex_Main "HOL-Library.Multiset" "HOL-Library.List_Lexorder" "HOL-Library.Char_ord"
begin

section \<open>Overlay-redaction audit: geometry and colour classification\<close>

text \<open>
  The development embeds the overlay auditor \<^verbatim>\<open>pdf_overlay_audit.py\<close> and two
  functions of \<^verbatim>\<open>pdf_security_audit_advanced.py\<close>. A Python float is modelled
  by the \<^typ>\<open>real\<close> number it denotes, so comparisons are exact, and each float
  operation of the overlay auditor rounds its exact result with \<open>binary64\<close> below. The
  rectangle operations of the PDF library and the one product of the OCR check are exact, as
  said where they are defined. Python integers are \<^typ>\<open>int\<close>.
\<close>

subsection \<open>Binary64 arithmetic\<close>

text \<open>
  Rounding to the nearest binary64 number, ties to the even significand: 53 significant bits
  at exponents from \<open>-1022\<close> upwards, and below them the fixed quantum \<open>pow2 (-1074)\<close>.
  Overflow to infinity is not modelled. A decimal literal \<open>d\<close> of the source denotes
  \<open>binary64 d\<close>: the literal \<^verbatim>\<open>0.3\<close> is a number slightly below three tenths.
\<close>

definition pow2 :: "int \<Rightarrow> real" where
  "pow2 e = (if 0 \<le> e then 2 ^ nat e else 1 / 2 ^ nat (- e))"

text \<open>
  The exponent \<open>e\<close> of a positive number \<open>a\<close>, that is \<open>pow2 e \<le> a < pow2 (e + 1)\<close>,
  found by halving from above 2 or by doubling from below 1.
\<close>

function exponent_ge1 :: "real \<Rightarrow> int" where
  "exponent_ge1 a = (if a < 2 then 0 else exponent_ge1 (a / 2) + 1)"
  by pat_completeness auto
termination
proof (relation "measure (\<lambda>a. nat \<lfloor>a\<rfloor>)")
  show "wf (measure (\<lambda>a::real. nat \<lfloor>a\<rfloor>))" by simp
next
  fix a :: real
  assume big: "\<not> a < 2"
  then have "a / 2 \<le> a - 1" by simp
  then have "\<lfloor>a / 2\<rfloor> \<le> \<lfloor>a - 1\<rfloor>" by (rule floor_mono)
  also have "\<dots> = \<lfloor>a\<rfloor> - 1" by simp
  finally have "\<lfloor>a / 2\<rfloor> < \<lfloor>a\<rfloor>" by simp
  moreover have "0 < \<lfloor>a\<rfloor>" using big by simp
  ultimately show "(a / 2, a) \<in> measure (\<lambda>a. nat \<lfloor>a\<rfloor>)" by simp
qed

function exponent_lt1 :: "real \<Rightarrow> int" where
  "exponent_lt1 a = (if a \<le> 0 \<or> 1 \<le> a then 0 else exponent_lt1 (a * 2) - 1)"
  by pat_completeness auto
termination
proof (relation "measure (\<lambda>a. nat \<lfloor>1 / a\<rfloor>)")
  show "wf (measure (\<lambda>a::real. nat \<lfloor>1 / a\<rfloor>))" by simp
next
  fix a :: real
  assume "\<not> (a \<le> 0 \<or> 1 \<le> a)"
  then have a: "0 < a" "a < 1" by simp_all
  then have y: "1 < 1 / a" by simp
  have h: "1 / (a * 2) = (1 / a) / 2" by simp
  have n: "1 \<le> \<lfloor>1 / a\<rfloor>" using y by simp
  have "1 / a < of_int \<lfloor>1 / a\<rfloor> + 1" by linarith
  then have "(1 / a) / 2 < (of_int \<lfloor>1 / a\<rfloor> + 1) / 2" by simp
  also have "\<dots> \<le> of_int \<lfloor>1 / a\<rfloor>" using n by simp
  finally have "(1 / a) / 2 < of_int \<lfloor>1 / a\<rfloor>" .
  then have "\<lfloor>(1 / a) / 2\<rfloor> < \<lfloor>1 / a\<rfloor>" by (simp only: floor_less_iff)
  then have "\<lfloor>1 / (a * 2)\<rfloor> < \<lfloor>1 / a\<rfloor>" by (simp only: h)
  moreover have "0 < \<lfloor>1 / a\<rfloor>" using n by linarith
  ultimately have "nat \<lfloor>1 / (a * 2)\<rfloor> < nat \<lfloor>1 / a\<rfloor>"
    by (simp only: zless_nat_conj)
  then show "(a * 2, a) \<in> measure (\<lambda>a. nat \<lfloor>1 / a\<rfloor>)"
    by (simp only: in_measure)
qed

declare exponent_ge1.simps [simp del]

declare exponent_lt1.simps [simp del]

definition exponent_of :: "real \<Rightarrow> int" where
  "exponent_of a = (if 1 \<le> a then exponent_ge1 a else exponent_lt1 a)"

definition round_half_even :: "real \<Rightarrow> int" where
  "round_half_even m =
     (let f = \<lfloor>m\<rfloor>; r = m - of_int f
      in if r < 1 / 2 then f else if 1 / 2 < r then f + 1 else if even f then f else f + 1)"

definition binary64 :: "real \<Rightarrow> real" where
  "binary64 x =
     (if x = 0 then 0
      else let e = max (exponent_of \<bar>x\<bar>) (- 1022);
               quantum = pow2 (e - 52)
           in of_int (round_half_even (x / quantum)) * quantum)"

text \<open>The default arguments of the auditor, as the numbers their literals denote.\<close>

definition default_black_threshold :: real where
  "default_black_threshold = binary64 0.15"

definition default_min_dimension :: real where
  "default_min_dimension = 2"

definition default_max_coverage_ratio :: real where
  "default_max_coverage_ratio = binary64 0.95"

subsection \<open>Rectangles\<close>

text \<open>
  Modelled from the spec: \<^verbatim>\<open>fitz.Rect\<close> belongs to the PDF library the repository
  imports, so its operations are not among the source files. The spec's data model gives a
  rectangle four bounds \<open>(x0, y0, x1, y1)\<close>, counts a zero-area rectangle as degenerate, and
  describes the intersection as the overlap region whose area is width times height.
\<close>

record Rect =
  x0 :: real
  y0 :: real
  x1 :: real
  y1 :: real

definition mk_rect :: "real \<Rightarrow> real \<Rightarrow> real \<Rightarrow> real \<Rightarrow> Rect" where
  "mk_rect a b c d = \<lparr>x0 = a, y0 = b, x1 = c, y1 = d\<rparr>"

definition rect_width :: "Rect \<Rightarrow> real" where
  "rect_width r = max 0 (x1 r - x0 r)"

definition rect_height :: "Rect \<Rightarrow> real" where
  "rect_height r = max 0 (y1 r - y0 r)"

definition rect_is_empty :: "Rect \<Rightarrow> bool" where
  "rect_is_empty r = (x0 r \<ge> x1 r \<or> y0 r \<ge> y1 r)"

definition rect_is_valid :: "Rect \<Rightarrow> bool" where
  "rect_is_valid r = (x0 r \<le> x1 r \<and> y0 r \<le> y1 r)"

definition rect_get_area :: "Rect \<Rightarrow> real" where
  "rect_get_area r = rect_width r * rect_height r"

definition rect_and :: "Rect \<Rightarrow> Rect \<Rightarrow> Rect" where
  "rect_and a b = \<lparr>x0 = max (x0 a) (x0 b), y0 = max (y0 a) (y0 b),
                   x1 = min (x1 a) (x1 b), y1 = min (y1 a) (y1 b)\<rparr>"

text \<open>Geometric vocabulary of the claims: interiors that do not meet, and containment.\<close>

definition rect_disjoint :: "Rect \<Rightarrow> Rect \<Rightarrow> bool" where
  "rect_disjoint a b = (x1 a \<le> x0 b \<or> x1 b \<le> x0 a \<or> y1 a \<le> y0 b \<or> y1 b \<le> y0 a)"

definition rect_inside :: "Rect \<Rightarrow> Rect \<Rightarrow> bool" where
  "rect_inside a b = (x0 b \<le> x0 a \<and> y0 b \<le> y0 a \<and> x1 a \<le> x1 b \<and> y1 a \<le> y1 b)"

subsection \<open>\<^verbatim>\<open>is_color_black\<close>\<close>

definition is_color_black :: "real list option \<Rightarrow> real \<Rightarrow> bool" where
  "is_color_black color threshold =
     (case color of
        None \<Rightarrow> False
      | Some cs \<Rightarrow>
          if cs = [] then False
          else if length cs = 1 then cs ! 0 \<le> threshold
          else if length cs = 3 then
            cs ! 0 \<le> threshold \<and> cs ! 1 \<le> threshold \<and> cs ! 2 \<le> threshold
          else if length cs = 4 then
            cs ! 3 \<ge> binary64 (1 - threshold) \<and> cs ! 0 \<le> threshold \<and> cs ! 1 \<le> threshold
              \<and> cs ! 2 \<le> threshold
          else list_all (\<lambda>c. c \<le> threshold) cs)"

text \<open>The rule as the specification words it, for comparison with the code.\<close>

definition isBlackLike_spec :: "real list option \<Rightarrow> real \<Rightarrow> bool" where
  "isBlackLike_spec color threshold =
     (case color of
        Some [v] \<Rightarrow> v \<le> threshold
      | Some [r, g, b] \<Rightarrow> r \<le> threshold \<and> g \<le> threshold \<and> b \<le> threshold
      | Some [c, m, y, k] \<Rightarrow>
          k \<ge> 1 - threshold \<and> c \<le> threshold \<and> m \<le> threshold \<and> y \<le> threshold
      | _ \<Rightarrow> False)"

subsection \<open>\<^verbatim>\<open>compute_overlap_area\<close>\<close>

definition compute_overlap_area :: "Rect \<Rightarrow> Rect \<Rightarrow> real" where
  "compute_overlap_area rect1 rect2 =
     (let intersection = rect_and rect1 rect2
      in if rect_is_empty intersection \<or> \<not> rect_is_valid intersection then 0
         else rect_get_area intersection)"

subsection \<open>\<^verbatim>\<open>detect_overlaps\<close>\<close>

text \<open>The inner loop over the text rectangles, left by \<^verbatim>\<open>break\<close> at the first hit.\<close>

fun overlaps_some_text :: "Rect \<Rightarrow> Rect list \<Rightarrow> real \<Rightarrow> bool" where
  "overlaps_some_text black_rect [] min_overlap_area = False"
| "overlaps_some_text black_rect (text_rect # text_rects) min_overlap_area =
     (if compute_overlap_area black_rect text_rect \<ge> min_overlap_area then True
      else overlaps_some_text black_rect text_rects min_overlap_area)"

text \<open>The outer loop, with the running \<^verbatim>\<open>overlap_count\<close> as an argument.\<close>

fun detect_overlaps_from :: "int \<Rightarrow> Rect list \<Rightarrow> Rect list \<Rightarrow> real \<Rightarrow> int option \<Rightarrow> int" where
  "detect_overlaps_from overlap_count [] text_rects min_overlap_area stop_after = overlap_count"
| "detect_overlaps_from overlap_count (black_rect # black_rects) text_rects min_overlap_area stop_after =
     (let overlap_count' =
            (if overlaps_some_text black_rect text_rects min_overlap_area
             then overlap_count + 1 else overlap_count)
      in if (case stop_after of None \<Rightarrow> False | Some k \<Rightarrow> overlap_count' \<ge> k)
         then overlap_count'
         else detect_overlaps_from overlap_count' black_rects text_rects min_overlap_area stop_after)"

definition detect_overlaps :: "Rect list \<Rightarrow> Rect list \<Rightarrow> real \<Rightarrow> int option \<Rightarrow> int" where
  "detect_overlaps black_rects text_rects min_overlap_area stop_after =
     detect_overlaps_from 0 black_rects text_rects min_overlap_area stop_after"

section \<open>Overlay-redaction audit: pages\<close>

subsection \<open>Exceptions\<close>

text \<open>
  The exceptions the audit meets. \<open>OtherException\<close> carries the type name and the message
  of any exception without a handler of its own.
\<close>

datatype py_exception =
    FileNotFoundError
  | FileDataError string
  | PermissionError
  | ZeroDivisionError
  | OtherException string string

fun exception_type_name :: "py_exception \<Rightarrow> string" where
  "exception_type_name FileNotFoundError = ''FileNotFoundError''"
| "exception_type_name (FileDataError m) = ''FileDataError''"
| "exception_type_name PermissionError = ''PermissionError''"
| "exception_type_name ZeroDivisionError = ''ZeroDivisionError''"
| "exception_type_name (OtherException n m) = n"

fun exception_message :: "py_exception \<Rightarrow> string" where
  "exception_message FileNotFoundError = []"
| "exception_message (FileDataError m) = m"
| "exception_message PermissionError = []"
| "exception_message ZeroDivisionError = ''float division by zero''"
| "exception_message (OtherException n m) = m"

subsection \<open>What a page offers\<close>

text \<open>
  A drawing is the dictionary \<^verbatim>\<open>page.get_drawings()\<close> yields per vector path. An entry of
  its \<^verbatim>\<open>items\<close> is a tuple such as \<^verbatim>\<open>("re", Rect, orientation)\<close> or
  \<^verbatim>\<open>("l", Point, Point)\<close>, kept here as the list of its components.
  \<open>drawing_rect\<close> is \<open>None\<close> when the key is absent or its value is no rectangle;
  \<open>drawing_items\<close> is \<open>None\<close> when the key is absent or its value is \<^verbatim>\<open>None\<close>.
\<close>

datatype item_component =
    IName string
  | IRect Rect
  | IPoint real real
  | IQuad "(real \<times> real) list"
  | INumber int

record drawing =
  drawing_fill :: "real list option"
  drawing_rect :: "Rect option"
  drawing_items :: "item_component list list option"

text \<open>
  The raw text dictionary of \<^verbatim>\<open>page.get_text("rawdict")\<close>: blocks hold lines, lines
  hold spans, and a span carries its bounding box next to its characters and styling.
\<close>

record span =
  span_bbox :: "real list option"
  span_chars :: string
  span_font :: string
  span_size :: real
  span_color :: int

record line =
  line_bbox :: "real list option"
  line_spans :: "span list"

record block =
  block_type :: "int option"
  block_bbox :: "real list option"
  block_lines :: "line list"

record raw_dict =
  dict_width :: real
  dict_height :: real
  dict_blocks :: "block list"

text \<open>
  A page: its rectangle and the two extraction calls, each of which may raise
  (\<open>Inl\<close>).
\<close>

record page =
  page_rect :: Rect
  get_drawings :: "py_exception + drawing list"
  get_text_rawdict :: "py_exception + raw_dict"

subsection \<open>\<^verbatim>\<open>extract_black_rectangles\<close>\<close>

text \<open>The candidates of one drawing: its main rectangle, then the rectangles among its items.\<close>

definition item_rects :: "item_component list list \<Rightarrow> Rect list" where
  "item_rects its =
     concat (map (\<lambda>item. if length item \<ge> 2
                           then (case item ! 1 of IRect r \<Rightarrow> [r] | _ \<Rightarrow> [])
                           else []) its)"

definition drawing_candidates :: "drawing \<Rightarrow> Rect list" where
  "drawing_candidates d =
     (case drawing_rect d of None \<Rightarrow> [] | Some r \<Rightarrow> [r])
     @ item_rects (case drawing_items d of None \<Rightarrow> [] | Some its \<Rightarrow> its)"

text \<open>
  The loop over the candidates of one drawing, appending to \<^verbatim>\<open>black_rects\<close>. The
  quotient \<^verbatim>\<open>rect_area / page_area\<close> raises on a page of area zero.
\<close>

fun keep_candidates :: "Rect list \<Rightarrow> Rect list \<Rightarrow> real \<Rightarrow> real \<Rightarrow> real \<Rightarrow> py_exception + Rect list" where
  "keep_candidates black_rects [] page_area min_dimension max_coverage_ratio = Inr black_rects"
| "keep_candidates black_rects (rect # candidates) page_area min_dimension max_coverage_ratio =
     (if rect_width rect < min_dimension \<or> rect_height rect < min_dimension
      then keep_candidates black_rects candidates page_area min_dimension max_coverage_ratio
      else
        let rect_area = rect_get_area rect
        in if rect_area > 0 \<and> page_area = 0 then Inl ZeroDivisionError
           else if rect_area > 0 \<and> binary64 (rect_area / page_area) > max_coverage_ratio
           then keep_candidates black_rects candidates page_area min_dimension max_coverage_ratio
           else keep_candidates (black_rects @ [rect]) candidates page_area min_dimension
                  max_coverage_ratio)"

text \<open>The loop over the drawings.\<close>

fun scan_drawings :: "Rect list \<Rightarrow> drawing list \<Rightarrow> real \<Rightarrow> real \<Rightarrow> real \<Rightarrow> real \<Rightarrow> py_exception + Rect list" where
  "scan_drawings black_rects [] page_area black_threshold min_dimension max_coverage_ratio =
     Inr black_rects"
| "scan_drawings black_rects (d # drawings) page_area black_threshold min_dimension max_coverage_ratio =
     (if drawing_fill d = None \<or> drawing_fill d = Some []
      then scan_drawings black_rects drawings page_area black_threshold min_dimension
             max_coverage_ratio
      else if \<not> is_color_black (drawing_fill d) black_threshold
      then scan_drawings black_rects drawings page_area black_threshold min_dimension
             max_coverage_ratio
      else
        (case keep_candidates black_rects (drawing_candidates d) page_area min_dimension
                max_coverage_ratio of
           Inl e \<Rightarrow> Inl e
         | Inr black_rects' \<Rightarrow>
             scan_drawings black_rects' drawings page_area black_threshold min_dimension
               max_coverage_ratio))"

text \<open>De-duplication of near-identical rectangles, with \<^verbatim>\<open>unique\<close> as the accumulator.\<close>

definition near_identical :: "Rect \<Rightarrow> Rect \<Rightarrow> bool" where
  "near_identical r u =
     (\<bar>binary64 (x0 r - x0 u)\<bar> < 0.5 \<and> \<bar>binary64 (y0 r - y0 u)\<bar> < 0.5
      \<and> \<bar>binary64 (x1 r - x1 u)\<bar> < 0.5 \<and> \<bar>binary64 (y1 r - y1 u)\<bar> < 0.5)"

fun deduplicate :: "Rect list \<Rightarrow> Rect list \<Rightarrow> Rect list" where
  "deduplicate unique [] = unique"
| "deduplicate unique (r # black_rects) =
     deduplicate (if list_ex (near_identical r) unique then unique else unique @ [r]) black_rects"

definition extract_black_rectangles :: "page \<Rightarrow> real \<Rightarrow> real \<Rightarrow> real \<Rightarrow> py_exception + Rect list" where
  "extract_black_rectangles pg black_threshold min_dimension max_coverage_ratio =
     (let page_area = rect_get_area (page_rect pg)
      in case get_drawings pg of
           Inl e \<Rightarrow> Inr []
         | Inr drawings \<Rightarrow>
             (case scan_drawings [] drawings page_area black_threshold min_dimension
                     max_coverage_ratio of
                Inl e \<Rightarrow> Inl e
              | Inr black_rects \<Rightarrow> Inr (deduplicate [] black_rects)))"

subsection \<open>\<^verbatim>\<open>get_text_rectangles\<close>\<close>

definition span_rects :: "span \<Rightarrow> Rect list" where
  "span_rects sp =
     (case span_bbox sp of
        None \<Rightarrow> []
      | Some bbox \<Rightarrow>
          if bbox \<noteq> [] \<and> length bbox = 4
          then [mk_rect (bbox ! 0) (bbox ! 1) (bbox ! 2) (bbox ! 3)] else [])"

definition line_rects :: "line \<Rightarrow> Rect list" where
  "line_rects li = concat (map span_rects (line_spans li))"

definition block_rects :: "block \<Rightarrow> Rect list" where
  "block_rects b =
     (if block_type b \<noteq> Some 0 then [] else concat (map line_rects (block_lines b)))"

definition get_text_rectangles :: "page \<Rightarrow> Rect list" where
  "get_text_rectangles pg =
     (case get_text_rawdict pg of
        Inl e \<Rightarrow> []
      | Inr rd \<Rightarrow> concat (map block_rects (dict_blocks rd)))"

subsection \<open>\<^verbatim>\<open>audit_page\<close>\<close>

record PageRisk =
  page_number :: int
  black_rect_count :: int
  overlap_count :: int
  confidence_score :: int
  heuristic :: string

definition audit_page :: "page \<Rightarrow> int \<Rightarrow> real \<Rightarrow> real \<Rightarrow> int \<Rightarrow> py_exception + PageRisk option" where
  "audit_page pg page_num black_threshold min_overlap_area min_hits =
     (case extract_black_rectangles pg black_threshold default_min_dimension
             default_max_coverage_ratio of
        Inl e \<Rightarrow> Inl e
      | Inr black_rects \<Rightarrow>
          if black_rects = [] then Inr None
          else
            let text_rects = get_text_rectangles pg
            in if text_rects = [] then Inr None
               else
                 let overlap_count =
                       detect_overlaps black_rects text_rects min_overlap_area (Some min_hits);
                     score = 0;
                     score = (if int (length black_rects) > 0 then score + 3 else score);
                     score = (if overlap_count \<ge> min_hits then score + 3 else score);
                     redaction_like =
                       int (length (filter (\<lambda>r. rect_width r > binary64 (rect_height r * 3))
                                      black_rects));
                     score = (if redaction_like > 0 then score + 1 else score);
                     score = (if int (length black_rects) \<ge> 3 then score + 1 else score)
                 in if overlap_count \<ge> min_hits
                    then Inr (Some \<lparr>page_number = page_num,
                                    black_rect_count = int (length black_rects),
                                    overlap_count = overlap_count,
                                    confidence_score = score,
                                    heuristic = ''black_fill_rect_overlap_text''\<rparr>)
                    else Inr None)"

section \<open>Overlay-redaction audit: documents and directories\<close>

record PDFRiskReport =
  filename :: string
  total_pages :: int
  flagged_pages :: "PageRisk list"
  error :: "string option"

text \<open>
  An opened document: its pages, whether it is encrypted, and whether
  \<^verbatim>\<open>doc.authenticate("")\<close> succeeds.
\<close>

record document =
  doc_pages :: "page list"
  is_encrypted :: bool
  authenticate_empty :: bool

text \<open>
  A path is the list of its parts, which is what \<^verbatim>\<open>sorted\<close> compares. With it
  come the two answers of the file system the audit asks for: \<^verbatim>\<open>is_file()\<close> and
  \<^verbatim>\<open>fitz.open\<close>, each of which may raise.
\<close>

record pdf_file =
  path_parts :: "string list"
  is_file :: "py_exception + bool"
  fitz_open :: "py_exception + document"

definition path_name :: "pdf_file \<Rightarrow> string" where
  "path_name f = (if path_parts f = [] then [] else last (path_parts f))"

fun join_parts :: "string list \<Rightarrow> string" where
  "join_parts [] = []"
| "join_parts [p] = p"
| "join_parts (p # ps) = p @ ''/'' @ join_parts ps"

definition path_str :: "pdf_file \<Rightarrow> string" where
  "path_str f =
     (case path_parts f of
        [] \<Rightarrow> ''.''
      | p # ps \<Rightarrow> if p = ''/'' then ''/'' @ join_parts ps else join_parts (p # ps))"

text \<open>
  The calls made on the document handle, in order. \<open>PageAccess i\<close> is
  \<^verbatim>\<open>doc[i]\<close>, the only way the audit reaches page content.
\<close>

datatype doc_event = DocOpen | DocAuthenticate | PageAccess nat | DocClose

subsection \<open>\<^verbatim>\<open>audit_pdf\<close>\<close>

text \<open>
  The loop over the pages. It returns the pages flagged so far, the calls made, and the
  exception that ended it, if one did.
\<close>

fun audit_pages :: "PageRisk list \<Rightarrow> doc_event list \<Rightarrow> nat \<Rightarrow> page list \<Rightarrow> real \<Rightarrow> real \<Rightarrow> int \<Rightarrow> PageRisk list \<times> doc_event list \<times> py_exception option" where
  "audit_pages flagged events page_idx [] black_threshold min_overlap_area min_hits =
     (flagged, events, None)"
| "audit_pages flagged events page_idx (pg # pgs) black_threshold min_overlap_area min_hits =
     (let page_num = int page_idx + 1;
          events' = events @ [PageAccess page_idx]
      in case audit_page pg page_num black_threshold min_overlap_area min_hits of
           Inl e \<Rightarrow> (flagged, events', Some e)
         | Inr risk \<Rightarrow>
             audit_pages (case risk of None \<Rightarrow> flagged | Some r \<Rightarrow> flagged @ [r]) events'
               (Suc page_idx) pgs black_threshold min_overlap_area min_hits)"

fun error_text :: "pdf_file \<Rightarrow> py_exception \<Rightarrow> string" where
  "error_text f FileNotFoundError = ''File not found: '' @ path_str f"
| "error_text f (FileDataError m) = ''Invalid or corrupt PDF: '' @ m"
| "error_text f PermissionError = ''Permission denied: '' @ path_str f"
| "error_text f e =
     ''Unexpected error: '' @ exception_type_name e @ '': '' @ exception_message e"

definition audit_pdf :: "pdf_file \<Rightarrow> real \<Rightarrow> real \<Rightarrow> int \<Rightarrow> PDFRiskReport \<times> doc_event list" where
  "audit_pdf pdf_path black_threshold min_overlap_area min_hits =
     (case fitz_open pdf_path of
        Inl e \<Rightarrow>
          (\<lparr>filename = path_name pdf_path, total_pages = 0, flagged_pages = [],
            error = Some (error_text pdf_path e)\<rparr>, [])
      | Inr doc \<Rightarrow>
          let total_pages = int (length (doc_pages doc))
          in if is_encrypted doc \<and> \<not> authenticate_empty doc
             then (\<lparr>filename = path_name pdf_path, total_pages = 0, flagged_pages = [],
                    error = Some ''PDF is encrypted and requires a password''\<rparr>,
                   [DocOpen, DocAuthenticate, DocClose])
             else
               (case audit_pages []
                       (if is_encrypted doc then [DocOpen, DocAuthenticate] else [DocOpen]) 0
                       (doc_pages doc) black_threshold min_overlap_area min_hits of
                  (flagged, events, None) \<Rightarrow>
                    (\<lparr>filename = path_name pdf_path, total_pages = total_pages,
                      flagged_pages = flagged, error = None\<rparr>, events @ [DocClose])
                | (flagged, events, Some e) \<Rightarrow>
                    (\<lparr>filename = path_name pdf_path, total_pages = total_pages,
                      flagged_pages = flagged, error = Some (error_text pdf_path e)\<rparr>,
                     events)))"

subsection \<open>\<^verbatim>\<open>audit_directory\<close>\<close>

record directory =
  dir_exists :: bool
  dir_is_dir :: bool
  dir_glob :: "string \<Rightarrow> py_exception + pdf_file list"

text \<open>
  The loop over the sorted files. It returns the reports gathered so far and the exception
  that ended it, if one did.
\<close>

fun audit_files :: "PDFRiskReport list \<Rightarrow> pdf_file list \<Rightarrow> real \<Rightarrow> real \<Rightarrow> int \<Rightarrow> PDFRiskReport list \<times> py_exception option" where
  "audit_files reports [] black_threshold min_overlap_area min_hits = (reports, None)"
| "audit_files reports (pdf_file # pdf_files) black_threshold min_overlap_area min_hits =
     (case is_file pdf_file of
        Inl e \<Rightarrow> (reports, Some e)
      | Inr False \<Rightarrow> audit_files reports pdf_files black_threshold min_overlap_area min_hits
      | Inr True \<Rightarrow>
          audit_files
            (reports @ [fst (audit_pdf pdf_file black_threshold min_overlap_area min_hits)])
            pdf_files black_threshold min_overlap_area min_hits)"

definition audit_directory :: "directory \<Rightarrow> bool \<Rightarrow> real \<Rightarrow> real \<Rightarrow> int \<Rightarrow> py_exception + PDFRiskReport list" where
  "audit_directory dir_path recursive black_threshold min_overlap_area min_hits =
     (if \<not> dir_exists dir_path then Inr []
      else if \<not> dir_is_dir dir_path then Inr []
      else
        let pattern = (if recursive then ''**/*.pdf'' else ''*.pdf'')
        in case dir_glob dir_path pattern of
             Inl PermissionError \<Rightarrow> Inr []
           | Inl e \<Rightarrow> Inl e
           | Inr found \<Rightarrow>
               (case audit_files [] (sort_key path_parts found) black_threshold min_overlap_area
                       min_hits of
                  (reports, None) \<Rightarrow> Inr reports
                | (reports, Some PermissionError) \<Rightarrow> Inr reports
                | (reports, Some e) \<Rightarrow> Inl e))"

section \<open>Security audit\<close>

subsection \<open>\<^verbatim>\<open>check_ocr_layer\<close>\<close>

text \<open>
  What the check reads of a page: the cross-reference numbers of its images and its text.
  Of the document it reads the pages and \<^verbatim>\<open>extract_image\<close>, whose result is a
  dictionary. Characters are bytes here, so the white space \<^verbatim>\<open>strip()\<close> removes is
  the one-byte part of Python's. The product \<^verbatim>\<open>len(doc) * 0.3\<close> is taken exactly;
  against an integer count the comparison comes out as with binary64 for documents of up to
  \<open>10 ^ 15\<close> pages.
\<close>

record ocr_page =
  get_images :: "py_exception + nat list"
  get_text :: "py_exception + string"

record ocr_document =
  ocr_doc_pages :: "ocr_page list"
  extract_image :: "nat \<Rightarrow> py_exception + (string \<rightharpoonup> int)"

definition is_py_space :: "char \<Rightarrow> bool" where
  "is_py_space c = (c \<in> set [CHR 0x09, CHR 0x0A, CHR 0x0B, CHR 0x0C, CHR 0x0D, CHR 0x1C,
                              CHR 0x1D, CHR 0x1E, CHR 0x1F, CHR 0x20, CHR 0x85, CHR 0xA0])"

definition py_strip :: "string \<Rightarrow> string" where
  "py_strip s = rev (dropWhile is_py_space (rev (dropWhile is_py_space s)))"

definition dict_get :: "(string \<rightharpoonup> int) \<Rightarrow> string \<Rightarrow> int \<Rightarrow> int" where
  "dict_get m k dflt = (case m k of None \<Rightarrow> dflt | Some v \<Rightarrow> v)"

text \<open>
  The loop over the pages, numbered from 1, with \<^verbatim>\<open>ocr_pages\<close>,
  \<^verbatim>\<open>total_image_pages\<close> and \<^verbatim>\<open>total_text_pages\<close> as arguments.
\<close>

fun scan_ocr_pages :: "ocr_document \<Rightarrow> int list \<Rightarrow> int \<Rightarrow> int \<Rightarrow> int \<Rightarrow> ocr_page list \<Rightarrow> py_exception + (int list \<times> int \<times> int)" where
  "scan_ocr_pages doc ocr_pages total_image_pages total_text_pages page_num [] =
     Inr (ocr_pages, total_image_pages, total_text_pages)"
| "scan_ocr_pages doc ocr_pages total_image_pages total_text_pages page_num (pg # pgs) =
     (case get_images pg of
        Inl e \<Rightarrow> Inl e
      | Inr images \<Rightarrow>
          (case get_text pg of
             Inl e \<Rightarrow> Inl e
           | Inr raw \<Rightarrow>
               let text = py_strip raw;
                   has_images = (length images > 0);
                   has_text = (length text > 0);
                   total_image_pages' =
                     (if has_images then total_image_pages + 1 else total_image_pages);
                   ocr_pages' =
                     (if has_images then
                        (case images of
                           [] \<Rightarrow> ocr_pages
                         | xref # rest \<Rightarrow>
                             (case extract_image doc xref of
                                Inl e \<Rightarrow> ocr_pages
                              | Inr img \<Rightarrow>
                                  let width = dict_get img ''width'' 0;
                                      height = dict_get img ''height'' 0
                                  in if width > 1000 \<and> height > 1000 \<and> has_text
                                     then ocr_pages @ [page_num] else ocr_pages))
                      else ocr_pages);
                   total_text_pages' =
                     (if has_text then total_text_pages + 1 else total_text_pages)
               in scan_ocr_pages doc ocr_pages' total_image_pages' total_text_pages'
                    (page_num + 1) pgs))"

definition check_ocr_layer :: "ocr_document \<Rightarrow> bool \<times> int list \<times> bool" where
  "check_ocr_layer doc =
     (case scan_ocr_pages doc [] 0 0 1 (ocr_doc_pages doc) of
        Inl e \<Rightarrow> (False, [], False)
      | Inr (ocr_pages, total_image_pages, total_text_pages) \<Rightarrow>
          let len_doc = int (length (ocr_doc_pages doc));
              is_scanned = False;
              is_scanned =
                (if real (length ocr_pages) > real_of_int len_doc * 0.3 then True
                 else is_scanned);
              is_scanned =
                (if total_image_pages = len_doc \<and> total_text_pages = len_doc then True
                 else is_scanned);
              has_ocr = (length ocr_pages > 0)
          in (has_ocr, ocr_pages, is_scanned))"

subsection \<open>\<^verbatim>\<open>calculate_risk_score\<close>\<close>

record AdvancedSecurityFindings =
  has_metadata :: bool
  metadata_keys :: "string list"
  metadata_details :: "(string \<times> string) list"
  has_hidden_text :: bool
  hidden_text_types :: "string list"
  white_on_white_pages :: "int list"
  offpage_text_pages :: "int list"
  overlay_risk :: string
  has_attachments :: bool
  attachment_count :: int
  attachment_names :: "string list"
  has_annotations :: bool
  annotation_count :: int
  annotation_types :: "string list"
  has_forms :: bool
  form_field_count :: int
  reviewer_names :: "string list"
  has_ocr_layer :: bool
  ocr_pages :: "int list"
  is_scanned :: bool
  has_javascript :: bool
  javascript_count :: int
  has_external_links :: bool
  external_urls :: "string list"
  has_remote_resources :: bool
  has_signatures :: bool
  signature_count :: int
  signer_names :: "string list"
  has_layers :: bool
  layer_count :: int
  incremental_updates :: bool
  version_count :: int
  has_structure_tags :: bool
  has_alt_text :: bool
  has_watermarks :: bool
  has_actions :: bool
  has_thumbnails :: bool
  finding_notes :: "string list"
  risk_score :: int

text \<open>The dataclass defaults.\<close>

definition default_findings :: AdvancedSecurityFindings where
  "default_findings =
     \<lparr>has_metadata = False, metadata_keys = [], metadata_details = [],
      has_hidden_text = False, hidden_text_types = [], white_on_white_pages = [],
      offpage_text_pages = [], overlay_risk = ''NO'',
      has_attachments = False, attachment_count = 0, attachment_names = [],
      has_annotations = False, annotation_count = 0, annotation_types = [],
      has_forms = False, form_field_count = 0, reviewer_names = [],
      has_ocr_layer = False, ocr_pages = [], is_scanned = False,
      has_javascript = False, javascript_count = 0,
      has_external_links = False, external_urls = [], has_remote_resources = False,
      has_signatures = False, signature_count = 0, signer_names = [],
      has_layers = False, layer_count = 0, incremental_updates = False, version_count = 0,
      has_structure_tags = False, has_alt_text = False,
      has_watermarks = False, has_actions = False, has_thumbnails = False,
      finding_notes = [], risk_score = 0\<rparr>"

definition calculate_risk_score :: "AdvancedSecurityFindings \<Rightarrow> int" where
  "calculate_risk_score findings =
     (let score = 0;
          score = (if has_hidden_text findings then score + 15 else score);
          score = (if overlay_risk findings \<in> set [''YES'', ''MAYBE'']
                   then score + (if overlay_risk findings = ''YES'' then 20 else 10)
                   else score);
          score = (if has_signatures findings then score + 10 else score);
          score = (if has_javascript findings then score + 15 else score);
          score = (if has_external_links findings \<or> has_remote_resources findings
                   then score + 10 else score);
          score = (if has_metadata findings then score + 5 else score);
          score = (if has_attachments findings then score + 5 else score);
          score = (if reviewer_names findings \<noteq> [] then score + 5 else score);
          score = (if has_ocr_layer findings then score + 3 else score);
          score = (if incremental_updates findings then score + 5 else score);
          score = (if has_forms findings then score + 2 else score);
          score = (if has_thumbnails findings then score + 2 else score);
          score = (if has_structure_tags findings then score + 1 else score)
      in min score 100)"

text \<open>
  The scorer as the specification words it: each signal is a pair of whether it applies
  and its fixed weight, and the score is the sum of the weights of the signals that apply,
  clamped to the range from 0 to 100.
\<close>

definition risk_signals :: "AdvancedSecurityFindings \<Rightarrow> (bool \<times> int) list" where
  "risk_signals findings =
     [(has_hidden_text findings, 15),
      (overlay_risk findings = ''YES'', 20),
      (overlay_risk findings = ''MAYBE'', 10),
      (has_signatures findings, 10),
      (has_javascript findings, 15),
      (has_external_links findings \<or> has_remote_resources findings, 10),
      (has_metadata findings, 5),
      (has_attachments findings, 5),
      (reviewer_names findings \<noteq> [], 5),
      (has_ocr_layer findings, 3),
      (incremental_updates findings, 5),
      (has_forms findings, 2),
      (has_thumbnails findings, 2),
      (has_structure_tags findings, 1)]"

definition clamped_weight_sum :: "(bool \<times> int) list \<Rightarrow> int" where
  "clamped_weight_sum signals = max 0 (min 100 (sum_list (map snd (filter fst signals))))"

section \<open>Vocabulary of the properties\<close>

subsection \<open>Scoring by weights\<close>

definition weight_if :: "bool \<Rightarrow> int \<Rightarrow> int" where
  "weight_if b w = (if b then w else 0)"

subsection \<open>Geometry of a raw text dictionary\<close>

text \<open>
  What two pages share when they agree on block types, on the line and span structure and
  on every span bounding box: per block its type and, per line, the boxes of its spans.
  A page whose text extraction raises has no geometry.
\<close>

definition block_geometry :: "block \<Rightarrow> int option \<times> real list option list list" where
  "block_geometry b = (block_type b, map (\<lambda>l. map span_bbox (line_spans l)) (block_lines b))"

definition text_geometry :: "page \<Rightarrow> (int option \<times> real list option list list) list option" where
  "text_geometry pg =
     (case get_text_rawdict pg of
        Inl e \<Rightarrow> None
      | Inr rd \<Rightarrow> Some (map block_geometry (dict_blocks rd)))"

subsection \<open>Page predicates of the OCR check\<close>

definition page_has_images :: "ocr_page \<Rightarrow> bool" where
  "page_has_images pg = (case get_images pg of Inr (xref # rest) \<Rightarrow> True | _ \<Rightarrow> False)"

definition page_has_text :: "ocr_page \<Rightarrow> bool" where
  "page_has_text pg = (case get_text pg of Inr raw \<Rightarrow> py_strip raw \<noteq> [] | Inl e \<Rightarrow> False)"

text \<open>The first image of the page can be extracted and is more than 1000 wide and high.\<close>

definition first_image_large :: "ocr_document \<Rightarrow> ocr_page \<Rightarrow> bool" where
  "first_image_large doc pg =
     (case get_images pg of
        Inr (xref # rest) \<Rightarrow>
          (case extract_image doc xref of
             Inr img \<Rightarrow> dict_get img ''width'' 0 > 1000 \<and> dict_get img ''height'' 0 > 1000
           | Inl e \<Rightarrow> False)
      | _ \<Rightarrow> False)"

definition pages_readable :: "ocr_document \<Rightarrow> bool" where
  "pages_readable doc =
     list_all (\<lambda>pg. (case get_images pg of Inr i \<Rightarrow> True | Inl e \<Rightarrow> False)
                   \<and> (case get_text pg of Inr t \<Rightarrow> True | Inl e \<Rightarrow> False)) (ocr_doc_pages doc)"

section \<open>Sample inputs\<close>

definition text_span :: "real \<Rightarrow> real \<Rightarrow> real \<Rightarrow> real \<Rightarrow> string \<Rightarrow> span" where
  "text_span a b c d s =
     \<lparr>span_bbox = Some [a, b, c, d], span_chars = s, span_font = ''Helvetica'',
      span_size = 11, span_color = 0\<rparr>"

definition filled_rect :: "real list \<Rightarrow> Rect \<Rightarrow> drawing" where
  "filled_rect col r =
     \<lparr>drawing_fill = Some col, drawing_rect = Some r,
      drawing_items = Some [[IName ''re'', IRect r, INumber 1]]\<rparr>"

definition one_block :: "span list \<Rightarrow> raw_dict" where
  "one_block sps =
     \<lparr>dict_width = 612, dict_height = 792,
      dict_blocks = [\<lparr>block_type = Some 0, block_bbox = Some [0, 0, 612, 792],
                      block_lines = [\<lparr>line_bbox = Some [0, 0, 612, 792], line_spans = sps\<rparr>]\<rparr>]\<rparr>"

text \<open>The page of the scenario: one black fill and three spans, two of them under the fill.\<close>

definition scenario_page :: page where
  "scenario_page =
     \<lparr>page_rect = mk_rect 0 0 612 792,
      get_drawings = Inr [filled_rect [0, 0, 0] (mk_rect 0 0 20 20)],
      get_text_rawdict =
        Inr (one_block [text_span 5 5 10 10 ''John'', text_span 15 15 20 20 ''Doe'',
                        text_span 100 100 110 110 ''visible''])\<rparr>"

text \<open>The same page with other characters in its spans.\<close>

definition scenario_page_retyped :: page where
  "scenario_page_retyped =
     \<lparr>page_rect = mk_rect 0 0 612 792,
      get_drawings = Inr [filled_rect [0, 0, 0] (mk_rect 0 0 20 20)],
      get_text_rawdict =
        Inr (one_block [text_span 5 5 10 10 ''Mary'', text_span 15 15 20 20 ''Roe-Smith'',
                        text_span 100 100 110 110 []])\<rparr>"

text \<open>
  A page with three black fills in three colour spaces, the first of them a line-shaped bar,
  and one white fill; three of its four spans lie under a black fill.
\<close>

definition dense_page :: page where
  "dense_page =
     \<lparr>page_rect = mk_rect 0 0 612 792,
      get_drawings = Inr [filled_rect [0, 0, 0] (mk_rect 72 100 272 112),
                          filled_rect [0.125] (mk_rect 72 130 102 150),
                          filled_rect [0, 0, 0, 1] (mk_rect 72 160 132 190),
                          filled_rect [1, 1, 1] (mk_rect 300 300 400 400)],
      get_text_rawdict =
        Inr (one_block [text_span 80 101 200 111 ''name'', text_span 75 132 100 148 ''id'',
                        text_span 300 500 400 512 ''body'', text_span 80 165 120 185 ''dob''])\<rparr>"

text \<open>Findings with hidden text, a definite overlay risk and JavaScript, and nothing else.\<close>

definition three_signal_findings :: AdvancedSecurityFindings where
  "three_signal_findings =
     default_findings\<lparr>has_hidden_text := True, overlay_risk := ''YES'', has_javascript := True\<rparr>"

text \<open>
  Three files of one directory: a readable one-page document, a document that is encrypted
  and rejects the empty password, and a file that is no PDF.
\<close>

definition plain_pdf :: pdf_file where
  "plain_pdf =
     \<lparr>path_parts = [''corpus'', ''a.pdf''], is_file = Inr True,
      fitz_open = Inr \<lparr>doc_pages = [scenario_page], is_encrypted = False,
                       authenticate_empty = False\<rparr>\<rparr>"

definition locked_doc :: document where
  "locked_doc = \<lparr>doc_pages = [scenario_page, dense_page], is_encrypted = True,
                 authenticate_empty = False\<rparr>"

definition locked_pdf :: pdf_file where
  "locked_pdf =
     \<lparr>path_parts = [''corpus'', ''b.pdf''], is_file = Inr True, fitz_open = Inr locked_doc\<rparr>"

definition broken_pdf :: pdf_file where
  "broken_pdf =
     \<lparr>path_parts = [''corpus'', ''c.pdf''], is_file = Inr True,
      fitz_open = Inl (FileDataError ''no objects found'')\<rparr>"

text \<open>
  An entry whose \<^verbatim>\<open>is_file()\<close> raises, sorted between the first and the second of
  the files above, and the directory that lists all four.
\<close>

definition guarded_entry :: pdf_file where
  "guarded_entry =
     \<lparr>path_parts = [''corpus'', ''aa.pdf''], is_file = Inl PermissionError,
      fitz_open = Inl PermissionError\<rparr>"

definition guarded_dir :: directory where
  "guarded_dir =
     \<lparr>dir_exists = True, dir_is_dir = True,
      dir_glob = (\<lambda>pattern. Inr [plain_pdf, guarded_entry, locked_pdf, broken_pdf])\<rparr>"

definition corpus_dir :: directory where
  "corpus_dir =
     \<lparr>dir_exists = True, dir_is_dir = True,
      dir_glob = (\<lambda>pattern. Inr [broken_pdf, locked_pdf, plain_pdf])\<rparr>"

text \<open>
  Documents for the OCR check. Image 7 is 1000 by 1000, image 8 is 2480 by 3508 and
  image 9 is 120 by 80.
\<close>

definition sample_images :: "nat \<Rightarrow> py_exception + (string \<rightharpoonup> int)" where
  "sample_images xref =
     (if xref = 7 then Inr [''width'' \<mapsto> 1000, ''height'' \<mapsto> 1000]
      else if xref = 8 then Inr [''width'' \<mapsto> 2480, ''height'' \<mapsto> 3508]
      else if xref = 9 then Inr [''width'' \<mapsto> 120, ''height'' \<mapsto> 80]
      else Inl (OtherException ''ValueError'' ''bad xref''))"

definition ocr_page_of :: "nat list \<Rightarrow> string \<Rightarrow> ocr_page" where
  "ocr_page_of images txt = \<lparr>get_images = Inr images, get_text = Inr txt\<rparr>"

definition exact_1000_doc :: ocr_document where
  "exact_1000_doc =
     \<lparr>ocr_doc_pages = [ocr_page_of [7] ''scanned text'', ocr_page_of [] []],
      extract_image = sample_images\<rparr>"

definition second_image_doc :: ocr_document where
  "second_image_doc =
     \<lparr>ocr_doc_pages = [ocr_page_of [9, 8] ''scanned text'', ocr_page_of [] []],
      extract_image = sample_images\<rparr>"

definition blank_text_doc :: ocr_document where
  "blank_text_doc =
     \<lparr>ocr_doc_pages = [ocr_page_of [8] [CHR 0x20, CHR 0x0A], ocr_page_of [] []],
      extract_image = sample_images\<rparr>"

definition thirty_percent_doc :: ocr_document where
  "thirty_percent_doc =
     \<lparr>ocr_doc_pages = replicate 3 (ocr_page_of [8] ''scanned text'') @ replicate 7 (ocr_page_of [] []),
      extract_image = sample_images\<rparr>"

definition forty_percent_doc :: ocr_document where
  "forty_percent_doc =
     \<lparr>ocr_doc_pages = replicate 2 (ocr_page_of [8] ''scanned text'') @ replicate 3 (ocr_page_of [] []),
      extract_image = sample_images\<rparr>"

subsection \<open>Rectangles read off the geometry\<close>

definition bbox_rects :: "real list option \<Rightarrow> Rect list" where
  "bbox_rects bb =
     (case bb of
        None \<Rightarrow> []
      | Some bbox \<Rightarrow>
          if bbox \<noteq> [] \<and> length bbox = 4
          then [mk_rect (bbox ! 0) (bbox ! 1) (bbox ! 2) (bbox ! 3)] else [])"

definition geometry_rects :: "int option \<times> real list option list list \<Rightarrow> Rect list" where
  "geometry_rects g =
     (if fst g \<noteq> Some 0 then [] else concat (map (\<lambda>bbs. concat (map bbox_rects bbs)) (snd g)))"

section \<open>Evaluation rules for the sample inputs\<close>

lemmas binary64_eval = binary64_def exponent_of_def exponent_ge1.simps exponent_lt1.simps
  pow2_def round_half_even_def default_black_threshold_def default_min_dimension_def
  default_max_coverage_ratio_def

lemmas geom_defs = mk_rect_def rect_width_def rect_height_def rect_get_area_def rect_and_def
  rect_is_empty_def rect_is_valid_def compute_overlap_area_def

lemmas extract_defs = extract_black_rectangles_def drawing_candidates_def item_rects_def
  is_color_black_def near_identical_def filled_rect_def

lemmas text_defs = get_text_rectangles_def block_rects_def line_rects_def span_rects_def
  one_block_def text_span_def

lemma scenario_fills:
  "extract_black_rectangles scenario_page default_black_threshold default_min_dimension
       default_max_coverage_ratio = Inr [mk_rect 0 0 20 20]"
  by (simp add: scenario_page_def extract_defs geom_defs binary64_eval)

lemma scenario_spans:
  "get_text_rectangles scenario_page =
     [mk_rect 5 5 10 10, mk_rect 15 15 20 20, mk_rect 100 100 110 110]"
  by (simp add: scenario_page_def text_defs mk_rect_def)

lemma dense_fills:
  "extract_black_rectangles dense_page default_black_threshold default_min_dimension
       default_max_coverage_ratio =
     Inr [mk_rect 72 100 272 112, mk_rect 72 130 102 150, mk_rect 72 160 132 190]"
  by (simp add: dense_page_def extract_defs geom_defs binary64_eval)

lemma dense_spans:
  "get_text_rectangles dense_page =
     [mk_rect 80 101 200 111, mk_rect 75 132 100 148, mk_rect 300 500 400 512,
      mk_rect 80 165 120 185]"
  by (simp add: dense_page_def text_defs mk_rect_def)

lemma scenario_audit:
  "audit_page scenario_page 1 default_black_threshold 4 1 =
     Inr (Some \<lparr>page_number = 1, black_rect_count = 1, overlap_count = 1,
                confidence_score = 6, heuristic = ''black_fill_rect_overlap_text''\<rparr>)"
  unfolding audit_page_def scenario_fills scenario_spans
  by (simp add: detect_overlaps_def geom_defs binary64_eval Let_def)

lemma dense_audit:
  "audit_page dense_page 3 default_black_threshold 4 2 =
     Inr (Some \<lparr>page_number = 3, black_rect_count = 3, overlap_count = 2,
                confidence_score = 8, heuristic = ''black_fill_rect_overlap_text''\<rparr>)"
  unfolding audit_page_def dense_fills dense_spans
  by (simp add: detect_overlaps_def geom_defs binary64_eval Let_def)

text \<open>
  Rounding in the coverage filter: on a page of area 6, a fill of width \<^verbatim>\<open>2.85\<close> and
  height 2 has the area the literal \<^verbatim>\<open>5.7\<close> denotes; the quotient rounds to a number
  above the one \<^verbatim>\<open>0.95\<close> denotes, and the fill is dropped.
\<close>

lemma coverage_rounding_example:
  "keep_candidates [] [mk_rect 0 0 (binary64 2.85) 2] 6 default_min_dimension
     default_max_coverage_ratio = Inr []"
  by (simp add: geom_defs binary64_eval)

section \<open>Counting overlaps\<close>

lemma detect_overlaps_from_ge:
  "c \<le> detect_overlaps_from c bs ts a None"
proof (induction bs arbitrary: c)
  case Nil
  then show ?case by simp
next
  case (Cons b bs)
  let ?c = "if overlaps_some_text b ts a then c + 1 else c"
  have "c \<le> ?c" by simp
  also have "?c \<le> detect_overlaps_from ?c bs ts a None" by (rule Cons.IH)
  finally show ?case by (simp add: Let_def)
qed

lemma detect_overlaps_from_stop:
  "c < k \<Longrightarrow>
   detect_overlaps_from c bs ts a (Some k) = min (detect_overlaps_from c bs ts a None) k"
proof (induction bs arbitrary: c)
  case Nil
  then show ?case by simp
next
  case (Cons b bs)
  let ?c = "if overlaps_some_text b ts a then c + 1 else c"
  show ?case
  proof (cases "k \<le> ?c")
    case True
    then have eq: "?c = k" using Cons.prems by (auto split: if_splits)
    have "k \<le> detect_overlaps_from ?c bs ts a None"
      using detect_overlaps_from_ge[of ?c bs ts a] eq by simp
    then show ?thesis using True eq by (simp add: Let_def)
  next
    case False
    then have "?c < k" by simp
    from Cons.IH[OF this] False show ?thesis by (simp add: Let_def)
  qed
qed

lemma detect_overlaps_stop_le:
  "1 \<le> k \<Longrightarrow> detect_overlaps bs ts a (Some k) \<le> k"
  using detect_overlaps_from_stop[of 0 k bs ts a] by (simp add: detect_overlaps_def)

text \<open>
  Claim C3. For all fills, spans and minimum overlap areas and every integer \<open>k \<ge> 1\<close>,
  \<^verbatim>\<open>detect_overlaps\<close> with \<^verbatim>\<open>stop_after=k\<close> returns the minimum of \<open>k\<close> and
  the count \<open>c\<close> it returns with \<^verbatim>\<open>stop_after=None\<close>; so the comparison with the
  threshold is unchanged: the stopped count reaches \<open>k\<close> exactly when \<open>c\<close> does.
\<close>

theorem detect_overlaps_stop_after:
  assumes "1 \<le> k"
  shows "detect_overlaps black_rects text_rects min_overlap_area (Some k)
           = min (detect_overlaps black_rects text_rects min_overlap_area None) k
         \<and> (k \<le> detect_overlaps black_rects text_rects min_overlap_area (Some k)
              \<longleftrightarrow> k \<le> detect_overlaps black_rects text_rects min_overlap_area None)"
proof -
  have "(0::int) < k" using assms by simp
  then have "detect_overlaps black_rects text_rects min_overlap_area (Some k)
               = min (detect_overlaps black_rects text_rects min_overlap_area None) k"
    unfolding detect_overlaps_def by (rule detect_overlaps_from_stop)
  then show ?thesis by simp
qed

theorem detect_overlaps_stop_after_witness:
  "(1::int) \<le> 2
   \<and> detect_overlaps [mk_rect 72 100 272 112, mk_rect 72 130 102 150, mk_rect 72 160 132 190]
        [mk_rect 80 101 200 111, mk_rect 75 132 100 148, mk_rect 300 500 400 512,
         mk_rect 80 165 120 185] 4 (Some 2) = 2
   \<and> detect_overlaps [mk_rect 72 100 272 112, mk_rect 72 130 102 150, mk_rect 72 160 132 190]
        [mk_rect 80 101 200 111, mk_rect 75 132 100 148, mk_rect 300 500 400 512,
         mk_rect 80 165 120 185] 4 None = 3"
proof -
  have h: "(1::int) \<le> 2" by simp
  have c: "detect_overlaps [mk_rect 72 100 272 112, mk_rect 72 130 102 150, mk_rect 72 160 132 190]
        [mk_rect 80 101 200 111, mk_rect 75 132 100 148, mk_rect 300 500 400 512,
         mk_rect 80 165 120 185] 4 None = 3"
    by (simp add: detect_overlaps_def geom_defs binary64_eval Let_def)
  show ?thesis
    using h c
      detect_overlaps_stop_after[OF h,
        of "[mk_rect 72 100 272 112, mk_rect 72 130 102 150, mk_rect 72 160 132 190]"
           "[mk_rect 80 101 200 111, mk_rect 75 132 100 148, mk_rect 300 500 400 512,
             mk_rect 80 165 120 185]" 4]
    by simp
qed

section \<open>Auditing a page\<close>

text \<open>
  Claim C1, as amended. On a page whose extracted fills are exactly the rectangle
  \<open>(0,0,20,20)\<close> and whose text spans are exactly \<open>(5,5,10,10)\<close>, \<open>(15,15,20,20)\<close> and
  \<open>(100,100,110,110)\<close>, \<^verbatim>\<open>audit_page\<close> with a minimum overlap area of 4 and
  \<^verbatim>\<open>min_hits=1\<close> flags the page with an overlap count of 1 (the one fill counts once,
  however many spans it covers) and a confidence score of exactly 6.
\<close>

theorem audit_page_scenario:
  assumes "extract_black_rectangles pg black_threshold default_min_dimension
       default_max_coverage_ratio = Inr [mk_rect 0 0 20 20]"
    and "get_text_rectangles pg =
           [mk_rect 5 5 10 10, mk_rect 15 15 20 20, mk_rect 100 100 110 110]"
  shows "audit_page pg page_num black_threshold 4 1 =
           Inr (Some \<lparr>page_number = page_num, black_rect_count = 1, overlap_count = 1,
                      confidence_score = 6, heuristic = ''black_fill_rect_overlap_text''\<rparr>)"
  using assms by (simp add: audit_page_def detect_overlaps_def geom_defs binary64_eval Let_def)

theorem audit_page_scenario_witness:
  "extract_black_rectangles scenario_page default_black_threshold default_min_dimension
       default_max_coverage_ratio = Inr [mk_rect 0 0 20 20]
   \<and> get_text_rectangles scenario_page =
       [mk_rect 5 5 10 10, mk_rect 15 15 20 20, mk_rect 100 100 110 110]
   \<and> audit_page scenario_page 7 default_black_threshold 4 1 =
       Inr (Some \<lparr>page_number = 7, black_rect_count = 1, overlap_count = 1,
                  confidence_score = 6, heuristic = ''black_fill_rect_overlap_text''\<rparr>)"
  using audit_page_scenario[OF scenario_fills scenario_spans, of 7] scenario_fills scenario_spans
  by simp

text \<open>
  The claim as the specification states it expects an overlap count of 2. On the scenario's
  page the reported count is 1.
\<close>

theorem audit_page_scenario_counterexample:
  "extract_black_rectangles scenario_page default_black_threshold default_min_dimension
       default_max_coverage_ratio = Inr [mk_rect 0 0 20 20]
   \<and> get_text_rectangles scenario_page =
       [mk_rect 5 5 10 10, mk_rect 15 15 20 20, mk_rect 100 100 110 110]
   \<and> audit_page scenario_page 1 default_black_threshold 4 1 =
       Inr (Some \<lparr>page_number = 1, black_rect_count = 1, overlap_count = 1,
                  confidence_score = 6, heuristic = ''black_fill_rect_overlap_text''\<rparr>)
   \<and> overlap_count \<lparr>page_number = 1, black_rect_count = 1, overlap_count = 1,
                  confidence_score = 6, heuristic = ''black_fill_rect_overlap_text''\<rparr> \<noteq> 2"
  using scenario_fills scenario_spans scenario_audit by simp

text \<open>
  Claim C2. For every page and every choice of parameters with \<^verbatim>\<open>min_hits\<close> at least 1,
  a \<^verbatim>\<open>PageRisk\<close> returned by \<^verbatim>\<open>audit_page\<close> has an overlap count equal to
  \<^verbatim>\<open>min_hits\<close>: flagging needs the count to reach \<^verbatim>\<open>min_hits\<close>, and counting stops
  there.
\<close>

theorem audit_page_overlap_count:
  assumes "audit_page pg page_num black_threshold min_overlap_area min_hits = Inr (Some risk)"
    and "1 \<le> min_hits"
  shows "overlap_count risk = min_hits"
proof -
  from assms(1) obtain bs where
    "overlap_count risk =
       detect_overlaps bs (get_text_rectangles pg) min_overlap_area (Some min_hits)"
    and "min_hits \<le> detect_overlaps bs (get_text_rectangles pg) min_overlap_area (Some min_hits)"
    by (auto simp: audit_page_def Let_def split: sum.splits if_splits)
  with detect_overlaps_stop_le[OF assms(2)] show ?thesis
    by (simp add: order_antisym)
qed

theorem audit_page_overlap_count_witness:
  "audit_page dense_page 3 default_black_threshold 4 2 =
     Inr (Some \<lparr>page_number = 3, black_rect_count = 3, overlap_count = 2,
                confidence_score = 8, heuristic = ''black_fill_rect_overlap_text''\<rparr>)
   \<and> (1::int) \<le> 2
   \<and> overlap_count \<lparr>page_number = 3, black_rect_count = 3, overlap_count = 2,
                confidence_score = 8, heuristic = ''black_fill_rect_overlap_text''\<rparr> = 2"
proof -
  have h: "(1::int) \<le> 2" by simp
  show ?thesis
    using audit_page_overlap_count[OF dense_audit h] dense_audit h by simp
qed

text \<open>
  Claim C10. For every page and every choice of parameters, a \<^verbatim>\<open>PageRisk\<close> returned by
  \<^verbatim>\<open>audit_page\<close> has a confidence score between 6 and 8: on a flagged page the 3 points
  for fills being present and the 3 points for the overlaps reaching \<^verbatim>\<open>min_hits\<close> both
  apply, and the line-shaped fill and the three-fills bonuses add at most 1 each.
\<close>

theorem audit_page_confidence_range:
  assumes "audit_page pg page_num black_threshold min_overlap_area min_hits = Inr (Some risk)"
  shows "6 \<le> confidence_score risk \<and> confidence_score risk \<le> 8"
  using assms by (auto simp: audit_page_def Let_def split: sum.splits if_splits)

theorem audit_page_confidence_range_witness:
  "audit_page dense_page 3 default_black_threshold 4 2 =
     Inr (Some \<lparr>page_number = 3, black_rect_count = 3, overlap_count = 2,
                confidence_score = 8, heuristic = ''black_fill_rect_overlap_text''\<rparr>)
   \<and> 6 \<le> confidence_score \<lparr>page_number = 3, black_rect_count = 3, overlap_count = 2,
                confidence_score = 8, heuristic = ''black_fill_rect_overlap_text''\<rparr>
   \<and> confidence_score \<lparr>page_number = 3, black_rect_count = 3, overlap_count = 2,
                confidence_score = 8, heuristic = ''black_fill_rect_overlap_text''\<rparr> \<le> 8"
  using audit_page_confidence_range[OF dense_audit] dense_audit by simp

section \<open>Intersection area\<close>

lemma overlap_commute: "compute_overlap_area a b = compute_overlap_area b a"
  by (simp add: compute_overlap_area_def rect_and_def max.commute min.commute)

lemma overlap_disjoint: "rect_disjoint a b \<Longrightarrow> compute_overlap_area a b = 0"
  by (auto simp: compute_overlap_area_def rect_and_def rect_disjoint_def rect_is_empty_def
      Let_def)

lemma overlap_zero_area:
  "rect_get_area a = 0 \<or> rect_get_area b = 0 \<Longrightarrow> compute_overlap_area a b = 0"
  by (auto simp: compute_overlap_area_def rect_and_def rect_is_empty_def Let_def
      rect_get_area_def rect_width_def rect_height_def max_def split: if_splits)

lemma overlap_inside: "rect_inside a b \<Longrightarrow> compute_overlap_area a b = rect_get_area a"
  by (auto simp: compute_overlap_area_def rect_and_def rect_is_empty_def Let_def
      rect_get_area_def rect_width_def rect_height_def rect_inside_def rect_is_valid_def
      max_def min_def)

lemma overlap_self: "compute_overlap_area a a = rect_get_area a"
  by (rule overlap_inside) (simp add: rect_inside_def)

text \<open>
  Claim C5. For all rectangles \<open>a\<close> and \<open>b\<close>, \<^verbatim>\<open>compute_overlap_area(a, b)\<close> equals
  \<^verbatim>\<open>compute_overlap_area(b, a)\<close>; it is 0 whenever the two are disjoint or either has
  zero area; a rectangle intersected with itself yields its own area; and when \<open>a\<close> lies
  inside \<open>b\<close> the result is the area of \<open>a\<close>.
\<close>

theorem compute_overlap_area_laws:
  "compute_overlap_area a b = compute_overlap_area b a
   \<and> (rect_disjoint a b \<longrightarrow> compute_overlap_area a b = 0)
   \<and> (rect_get_area a = 0 \<or> rect_get_area b = 0 \<longrightarrow> compute_overlap_area a b = 0)
   \<and> compute_overlap_area a a = rect_get_area a
   \<and> (rect_inside a b \<longrightarrow> compute_overlap_area a b = rect_get_area a)"
  using overlap_commute[of a b] overlap_disjoint[of a b] overlap_zero_area[of a b]
    overlap_self[of a] overlap_inside[of a b]
  by blast

theorem compute_overlap_area_laws_witness:
  "rect_disjoint (mk_rect 0 0 10 10) (mk_rect 20 20 30 30)
   \<and> compute_overlap_area (mk_rect 0 0 10 10) (mk_rect 20 20 30 30) = 0
   \<and> rect_get_area (mk_rect 3 3 3 9) = 0
   \<and> compute_overlap_area (mk_rect 3 3 3 9) (mk_rect 0 0 20 20) = 0
   \<and> rect_inside (mk_rect 5 5 10 10) (mk_rect 0 0 20 20)
   \<and> compute_overlap_area (mk_rect 5 5 10 10) (mk_rect 0 0 20 20) = 25
   \<and> compute_overlap_area (mk_rect 0 0 20 20) (mk_rect 5 5 10 10) = 25
   \<and> compute_overlap_area (mk_rect 5 5 10 10) (mk_rect 5 5 10 10) = 25"
proof -
  have d: "rect_disjoint (mk_rect 0 0 10 10) (mk_rect 20 20 30 30)"
    by (simp add: rect_disjoint_def mk_rect_def)
  have z: "rect_get_area (mk_rect 3 3 3 9) = 0"
    by (simp add: geom_defs)
  have i: "rect_inside (mk_rect 5 5 10 10) (mk_rect 0 0 20 20)"
    by (simp add: rect_inside_def mk_rect_def)
  have a: "rect_get_area (mk_rect 5 5 10 10) = 25"
    by (simp add: geom_defs)
  show ?thesis
    using d z i a
      compute_overlap_area_laws[of "mk_rect 0 0 10 10" "mk_rect 20 20 30 30"]
      compute_overlap_area_laws[of "mk_rect 3 3 3 9" "mk_rect 0 0 20 20"]
      compute_overlap_area_laws[of "mk_rect 5 5 10 10" "mk_rect 0 0 20 20"]
    by simp
qed

section \<open>Black-like colours\<close>

lemma color_shapes:
  fixes cs :: "real list"
  obtains "cs = []" | v where "cs = [v]" | r g b where "cs = [r, g, b]"
    | c m y k where "cs = [c, m, y, k]" | "length cs \<notin> {0, 1, 3, 4}"
proof (cases cs)
  case Nil
  then show ?thesis using that by simp
next
  case c1: (Cons a as)
  show ?thesis
  proof (cases as)
    case Nil
    then show ?thesis using that c1 by simp
  next
    case c2: (Cons b bs)
    show ?thesis
    proof (cases bs)
      case Nil
      then show ?thesis using that c1 c2 by simp
    next
      case c3: (Cons c ds)
      show ?thesis
      proof (cases ds)
        case Nil
        then show ?thesis using that c1 c2 c3 by simp
      next
        case c4: (Cons d es)
        show ?thesis
        proof (cases es)
          case Nil
          then show ?thesis using that c1 c2 c3 c4 by simp
        next
          case (Cons e fs)
          then show ?thesis using that c1 c2 c3 c4 by simp
        qed
      qed
    qed
  qed
qed

text \<open>
  Claim C4, as amended. For every colour tuple and every threshold between 0 and 1,
  \<^verbatim>\<open>is_color_black\<close> is true exactly by this rule: a 1-component colour when its value
  is at most the threshold; a 3-component colour when all three components are; a
  4-component colour \<open>(C,M,Y,K)\<close> when \<open>K\<close> is at least the difference
  \<^verbatim>\<open>1.0 - threshold\<close> as binary64 arithmetic rounds it and \<open>C\<close>, \<open>M\<close>, \<open>Y\<close>
  are each at most the threshold; a colour of any other non-zero arity when every component is
  at most the threshold. An absent or empty colour yields false.
\<close>

theorem is_color_black_rule:
  assumes "0 \<le> t" and "t \<le> 1"
  shows "is_color_black color t \<longleftrightarrow>
     (\<exists>v. color = Some [v] \<and> v \<le> t)
   \<or> (\<exists>r g b. color = Some [r, g, b] \<and> r \<le> t \<and> g \<le> t \<and> b \<le> t)
   \<or> (\<exists>c m y k. color = Some [c, m, y, k] \<and> k \<ge> binary64 (1 - t) \<and> c \<le> t \<and> m \<le> t
          \<and> y \<le> t)
   \<or> (\<exists>cs. color = Some cs \<and> length cs \<notin> {0, 1, 3, 4} \<and> (\<forall>c \<in> set cs. c \<le> t))"
proof (cases color)
  case None
  then show ?thesis by (simp add: is_color_black_def)
next
  case (Some cs)
  show ?thesis
    by (rule color_shapes[of cs]) (auto simp: is_color_black_def Some list_all_iff)
qed

text \<open>
  The rule at the default threshold, and at the literals \<^verbatim>\<open>0.3\<close> for \<open>K\<close> and
  \<^verbatim>\<open>0.7\<close> for the threshold, where \<^verbatim>\<open>1.0 - 0.7\<close> is a number above the one
  \<^verbatim>\<open>0.3\<close> denotes and the colour is not black-like.
\<close>

theorem is_color_black_rule_witness:
  "0 \<le> default_black_threshold \<and> default_black_threshold \<le> 1
   \<and> 0 \<le> binary64 0.7 \<and> binary64 0.7 \<le> 1
   \<and> is_color_black (Some [0.0625, 0.125]) default_black_threshold
   \<and> \<not> is_color_black (Some [0.0625, 0.25, 0, 0, 0]) default_black_threshold
   \<and> is_color_black (Some [0, 0, 0, 1]) default_black_threshold
   \<and> \<not> is_color_black (Some [0, 0, 0, binary64 0.3]) (binary64 0.7)
   \<and> \<not> is_color_black (Some []) default_black_threshold
   \<and> \<not> is_color_black None default_black_threshold"
proof -
  have d: "0 \<le> default_black_threshold" "default_black_threshold \<le> 1"
    by (simp_all add: binary64_eval)
  have s: "0 \<le> binary64 0.7" "binary64 0.7 \<le> 1"
    by (simp_all add: binary64_eval)
  show ?thesis
    using d s
      is_color_black_rule[OF d, of "Some [0.0625, 0.125]"]
      is_color_black_rule[OF d, of "Some [0.0625, 0.25, 0, 0, 0]"]
      is_color_black_rule[OF d, of "Some [0, 0, 0, 1]"]
      is_color_black_rule[OF s, of "Some [0, 0, 0, binary64 0.3]"]
      is_color_black_rule[OF d, of "Some []"]
      is_color_black_rule[OF d, of None]
    by (simp add: binary64_eval)
qed

text \<open>
  The claim as the specification states it has every arity other than 1, 3 and 4 yield
  false, and compares \<open>K\<close> with the exact difference. A 2-component colour with both
  components 0 is black-like at the threshold 0.15. And at the threshold \<open>3 / 2 ^ 55\<close>
  the difference \<^verbatim>\<open>1.0 - threshold\<close> rounds down to \<open>1 - 1 / 2 ^ 53\<close>, so a
  \<open>K\<close> of that value is black-like although it is below the exact difference.
\<close>

theorem is_color_black_other_arity_counterexample:
  "(0::real) \<le> 0.15 \<and> (0.15::real) \<le> 1
   \<and> is_color_black (Some [0, 0]) 0.15
   \<and> \<not> isBlackLike_spec (Some [0, 0]) 0.15
   \<and> (0::real) \<le> 3 / 2 ^ 55 \<and> (3 / 2 ^ 55 :: real) \<le> 1
   \<and> is_color_black (Some [0, 0, 0, 1 - 1 / 2 ^ 53]) (3 / 2 ^ 55)
   \<and> \<not> isBlackLike_spec (Some [0, 0, 0, 1 - 1 / 2 ^ 53]) (3 / 2 ^ 55)"
  by (simp add: is_color_black_def isBlackLike_spec_def binary64_eval)

section \<open>Risk score\<close>

lemma add_weight_if: "(if b then s + w else s) = s + weight_if b w"
  by (simp add: weight_if_def)

lemma add_overlay_weight:
  "(if r \<in> set [''YES'', ''MAYBE''] then s + (if r = ''YES'' then 20 else 10) else s)
     = s + weight_if (r = ''YES'') 20 + weight_if (r = ''MAYBE'') 10"
  by (auto simp: weight_if_def)

lemma weights_cons:
  "sum_list (map snd (filter fst ((b, w) # xs)))
     = weight_if b w + sum_list (map snd (filter fst xs))"
  by (simp add: weight_if_def)

lemma weight_if_nonneg: "0 \<le> w \<Longrightarrow> 0 \<le> weight_if b w"
  by (simp add: weight_if_def)

lemma score_as_sum:
  "calculate_risk_score f =
     min (weight_if (has_hidden_text f) 15 + weight_if (overlay_risk f = ''YES'') 20
          + weight_if (overlay_risk f = ''MAYBE'') 10 + weight_if (has_signatures f) 10
          + weight_if (has_javascript f) 15
          + weight_if (has_external_links f \<or> has_remote_resources f) 10
          + weight_if (has_metadata f) 5 + weight_if (has_attachments f) 5
          + weight_if (reviewer_names f \<noteq> []) 5 + weight_if (has_ocr_layer f) 3
          + weight_if (incremental_updates f) 5 + weight_if (has_forms f) 2
          + weight_if (has_thumbnails f) 2 + weight_if (has_structure_tags f) 1) 100"
  unfolding calculate_risk_score_def Let_def
  unfolding add_overlay_weight
  unfolding add_weight_if
  by simp

lemma signals_as_sum:
  "sum_list (map snd (filter fst (risk_signals f))) =
     weight_if (has_hidden_text f) 15 + weight_if (overlay_risk f = ''YES'') 20
     + weight_if (overlay_risk f = ''MAYBE'') 10 + weight_if (has_signatures f) 10
     + weight_if (has_javascript f) 15
     + weight_if (has_external_links f \<or> has_remote_resources f) 10
     + weight_if (has_metadata f) 5 + weight_if (has_attachments f) 5
     + weight_if (reviewer_names f \<noteq> []) 5 + weight_if (has_ocr_layer f) 3
     + weight_if (incremental_updates f) 5 + weight_if (has_forms f) 2
     + weight_if (has_thumbnails f) 2 + weight_if (has_structure_tags f) 1"
  unfolding risk_signals_def weights_cons by simp

lemma signals_sum_nonneg: "0 \<le> sum_list (map snd (filter fst (risk_signals f)))"
  unfolding signals_as_sum
  by (intro add_nonneg_nonneg) (simp_all add: weight_if_nonneg)

lemma score_refines: "calculate_risk_score f = clamped_weight_sum (risk_signals f)"
  using signals_sum_nonneg[of f]
  unfolding score_as_sum clamped_weight_sum_def signals_as_sum by simp

lemma clamped_weight_sum_perm:
  assumes "mset xs = mset ys"
  shows "clamped_weight_sum xs = clamped_weight_sum ys"
proof -
  have "sum_list (map snd (filter fst zs)) = sum_mset (image_mset snd (filter_mset fst (mset zs)))"
    for zs :: "(bool \<times> int) list"
    by (simp flip: sum_mset_sum_list)
  then show ?thesis unfolding clamped_weight_sum_def using assms by simp
qed

lemma score_three_signals:
  assumes "has_hidden_text f" "overlay_risk f = ''YES''" "has_javascript f"
    and "\<not> has_signatures f" "\<not> has_external_links f" "\<not> has_remote_resources f"
    and "\<not> has_metadata f" "\<not> has_attachments f" "reviewer_names f = []"
    and "\<not> has_ocr_layer f" "\<not> incremental_updates f" "\<not> has_forms f"
    and "\<not> has_thumbnails f" "\<not> has_structure_tags f"
  shows "calculate_risk_score f = 50"
  unfolding score_as_sum using assms by (simp add: weight_if_def)

text \<open>
  Claim C6. For every findings record, \<^verbatim>\<open>calculate_risk_score\<close> equals the sum of the
  fixed weights of exactly the signals that apply, clamped to the range from 0 to 100, and
  this value does not depend on the order in which the signals are considered; findings with
  hidden text, overlay risk \<^verbatim>\<open>"YES"\<close>, JavaScript and no other signal score exactly
  \<open>15 + 20 + 15 = 50\<close>.
\<close>

theorem calculate_risk_score_weights:
  "calculate_risk_score f = clamped_weight_sum (risk_signals f)
   \<and> 0 \<le> calculate_risk_score f \<and> calculate_risk_score f \<le> 100
   \<and> (\<forall>signals. mset signals = mset (risk_signals f)
         \<longrightarrow> clamped_weight_sum signals = calculate_risk_score f)
   \<and> (has_hidden_text f \<and> overlay_risk f = ''YES'' \<and> has_javascript f
        \<and> \<not> has_signatures f \<and> \<not> has_external_links f \<and> \<not> has_remote_resources f
        \<and> \<not> has_metadata f \<and> \<not> has_attachments f \<and> reviewer_names f = []
        \<and> \<not> has_ocr_layer f \<and> \<not> incremental_updates f \<and> \<not> has_forms f
        \<and> \<not> has_thumbnails f \<and> \<not> has_structure_tags f
       \<longrightarrow> calculate_risk_score f = 50)"
proof (intro conjI allI impI)
  show "calculate_risk_score f = clamped_weight_sum (risk_signals f)"
    by (rule score_refines)
  show "0 \<le> calculate_risk_score f"
    unfolding score_refines clamped_weight_sum_def by simp
  show "calculate_risk_score f \<le> 100"
    unfolding score_as_sum by (rule min.cobounded2)
  show "clamped_weight_sum signals = calculate_risk_score f"
    if "mset signals = mset (risk_signals f)" for signals
    using clamped_weight_sum_perm[OF that] by (simp add: score_refines)
  show "calculate_risk_score f = 50"
    if "has_hidden_text f \<and> overlay_risk f = ''YES'' \<and> has_javascript f
        \<and> \<not> has_signatures f \<and> \<not> has_external_links f \<and> \<not> has_remote_resources f
        \<and> \<not> has_metadata f \<and> \<not> has_attachments f \<and> reviewer_names f = []
        \<and> \<not> has_ocr_layer f \<and> \<not> incremental_updates f \<and> \<not> has_forms f
        \<and> \<not> has_thumbnails f \<and> \<not> has_structure_tags f"
    using that by (intro score_three_signals) simp_all
qed

theorem calculate_risk_score_weights_witness:
  "calculate_risk_score three_signal_findings = 50
   \<and> mset (rev (risk_signals three_signal_findings)) = mset (risk_signals three_signal_findings)
   \<and> clamped_weight_sum (rev (risk_signals three_signal_findings)) = 50"
proof -
  have p: "mset (rev (risk_signals three_signal_findings))
             = mset (risk_signals three_signal_findings)"
    by simp
  have flags: "has_hidden_text three_signal_findings \<and> overlay_risk three_signal_findings = ''YES''
        \<and> has_javascript three_signal_findings
        \<and> \<not> has_signatures three_signal_findings \<and> \<not> has_external_links three_signal_findings
        \<and> \<not> has_remote_resources three_signal_findings
        \<and> \<not> has_metadata three_signal_findings \<and> \<not> has_attachments three_signal_findings
        \<and> reviewer_names three_signal_findings = []
        \<and> \<not> has_ocr_layer three_signal_findings \<and> \<not> incremental_updates three_signal_findings
        \<and> \<not> has_forms three_signal_findings
        \<and> \<not> has_thumbnails three_signal_findings \<and> \<not> has_structure_tags three_signal_findings"
    by (simp add: three_signal_findings_def default_findings_def)
  from calculate_risk_score_weights[of three_signal_findings] flags
  have s: "calculate_risk_score three_signal_findings = 50" by blast
  from calculate_risk_score_weights[of three_signal_findings] p
  have "clamped_weight_sum (rev (risk_signals three_signal_findings))
          = calculate_risk_score three_signal_findings" by blast
  with s p show ?thesis by simp
qed

section \<open>Text rectangles depend on geometry only\<close>

lemma span_rects_bbox: "span_rects = (\<lambda>sp. bbox_rects (span_bbox sp))"
  by (rule ext) (simp add: span_rects_def bbox_rects_def)

lemma line_rects_bbox:
  "line_rects = (\<lambda>l. concat (map bbox_rects (map span_bbox (line_spans l))))"
  by (rule ext) (simp add: line_rects_def span_rects_bbox comp_def)

lemma block_rects_geometry: "block_rects = (\<lambda>b. geometry_rects (block_geometry b))"
  by (rule ext)
    (simp add: block_rects_def geometry_rects_def block_geometry_def line_rects_bbox comp_def)

lemma text_rects_geometry:
  "get_text_rectangles pg =
     (case text_geometry pg of None \<Rightarrow> [] | Some g \<Rightarrow> concat (map geometry_rects g))"
  by (simp add: get_text_rectangles_def text_geometry_def block_rects_geometry comp_def
      split: sum.splits)

text \<open>
  Claim C9. \<^verbatim>\<open>get_text_rectangles\<close> does not depend on the characters of the spans: two
  pages whose raw text dictionaries agree on block types, on the line and span structure and
  on every span bounding box yield the same list of rectangles, whatever their spans contain.
  The result is a list of rectangles, four coordinates each, so it holds no text.
\<close>

theorem get_text_rectangles_geometry_only:
  assumes "text_geometry p1 = text_geometry p2"
  shows "get_text_rectangles p1 = get_text_rectangles p2"
  using assms by (simp add: text_rects_geometry)

theorem get_text_rectangles_geometry_only_witness:
  "text_geometry scenario_page = text_geometry scenario_page_retyped
   \<and> get_text_rawdict scenario_page \<noteq> get_text_rawdict scenario_page_retyped
   \<and> get_text_rectangles scenario_page_retyped =
       [mk_rect 5 5 10 10, mk_rect 15 15 20 20, mk_rect 100 100 110 110]"
proof -
  have g: "text_geometry scenario_page = text_geometry scenario_page_retyped"
    by (simp add: text_geometry_def scenario_page_def scenario_page_retyped_def one_block_def
        text_span_def block_geometry_def)
  have d: "get_text_rawdict scenario_page \<noteq> get_text_rawdict scenario_page_retyped"
    by (simp add: scenario_page_def scenario_page_retyped_def one_block_def text_span_def)
  show ?thesis
    using g d get_text_rectangles_geometry_only[OF g] scenario_spans by simp
qed

section \<open>Encrypted documents and batches\<close>

lemma audit_files_all:
  assumes "\<forall>g \<in> set fs. is_file g = Inr True \<or> is_file g = Inr False"
  shows "audit_files reports fs thr a k =
           (reports @ map (\<lambda>g. fst (audit_pdf g thr a k))
                        (filter (\<lambda>g. is_file g = Inr True) fs), None)"
  using assms by (induction fs arbitrary: reports) auto

lemma audit_pdf_locked:
  assumes "fitz_open f = Inr doc" and "is_encrypted doc" and "\<not> authenticate_empty doc"
  shows "audit_pdf f thr a k =
           (\<lparr>filename = path_name f, total_pages = 0, flagged_pages = [],
             error = Some ''PDF is encrypted and requires a password''\<rparr>,
            [DocOpen, DocAuthenticate, DocClose])"
  using assms by (simp add: audit_pdf_def)

lemma audit_directory_all:
  assumes "dir_exists d" and "dir_is_dir d"
    and "dir_glob d (if recursive then ''**/*.pdf'' else ''*.pdf'') = Inr found"
    and "\<forall>g \<in> set found. is_file g = Inr True \<or> is_file g = Inr False"
  shows "audit_directory d recursive thr a k =
           Inr (map (\<lambda>g. fst (audit_pdf g thr a k))
                  (filter (\<lambda>g. is_file g = Inr True) (sort_key path_parts found)))"
  using assms by (simp add: audit_directory_def audit_files_all)

lemma corpus_sorted:
  "sort_key path_parts [broken_pdf, locked_pdf, plain_pdf] = [plain_pdf, locked_pdf, broken_pdf]"
  by (simp add: broken_pdf_def locked_pdf_def plain_pdf_def less_char_def less_eq_char_def)

lemma plain_report:
  "fst (audit_pdf plain_pdf default_black_threshold 4 1) =
     \<lparr>filename = ''a.pdf'', total_pages = 1,
      flagged_pages = [\<lparr>page_number = 1, black_rect_count = 1, overlap_count = 1,
                        confidence_score = 6, heuristic = ''black_fill_rect_overlap_text''\<rparr>],
      error = None\<rparr>"
  by (simp add: audit_pdf_def plain_pdf_def path_name_def scenario_audit)

lemma broken_report:
  "fst (audit_pdf broken_pdf default_black_threshold 4 1) =
     \<lparr>filename = ''c.pdf'', total_pages = 0, flagged_pages = [],
      error = Some ''Invalid or corrupt PDF: no objects found''\<rparr>"
  by (simp add: audit_pdf_def broken_pdf_def path_name_def)

text \<open>
  Claim C7, as amended. For a document that is encrypted and rejects the empty password,
  \<^verbatim>\<open>audit_pdf\<close> returns a report whose error field carries the encrypted-document
  message, whose page total is 0 and whose list of flagged pages is empty, and the calls made
  on the document are opening, authenticating and closing, with no page access. And provided
  listing the directory and asking each entry whether it is a file raise nothing,
  \<^verbatim>\<open>audit_directory\<close> returns one report for every regular file the listing finds,
  in sorted order, whatever the audit of any single document came to.
\<close>

theorem audit_pdf_encrypted_contained:
  "(fitz_open f = Inr doc \<and> is_encrypted doc \<and> \<not> authenticate_empty doc
      \<longrightarrow> audit_pdf f thr a k =
            (\<lparr>filename = path_name f, total_pages = 0, flagged_pages = [],
              error = Some ''PDF is encrypted and requires a password''\<rparr>,
             [DocOpen, DocAuthenticate, DocClose]))
   \<and> (dir_exists d \<and> dir_is_dir d
        \<and> dir_glob d (if recursive then ''**/*.pdf'' else ''*.pdf'') = Inr found
        \<and> (\<forall>g \<in> set found. is_file g = Inr True \<or> is_file g = Inr False)
      \<longrightarrow> audit_directory d recursive thr a k =
            Inr (map (\<lambda>g. fst (audit_pdf g thr a k))
                   (filter (\<lambda>g. is_file g = Inr True) (sort_key path_parts found))))"
  using audit_pdf_locked[of f doc thr a k] audit_directory_all[of d recursive found thr a k]
  by blast

theorem audit_pdf_encrypted_contained_witness:
  "audit_pdf locked_pdf default_black_threshold 4 1 =
     (\<lparr>filename = ''b.pdf'', total_pages = 0, flagged_pages = [],
       error = Some ''PDF is encrypted and requires a password''\<rparr>,
      [DocOpen, DocAuthenticate, DocClose])
   \<and> audit_directory corpus_dir False default_black_threshold 4 1 =
       Inr [\<lparr>filename = ''a.pdf'', total_pages = 1,
             flagged_pages = [\<lparr>page_number = 1, black_rect_count = 1, overlap_count = 1,
                               confidence_score = 6,
                               heuristic = ''black_fill_rect_overlap_text''\<rparr>],
             error = None\<rparr>,
            \<lparr>filename = ''b.pdf'', total_pages = 0, flagged_pages = [],
             error = Some ''PDF is encrypted and requires a password''\<rparr>,
            \<lparr>filename = ''c.pdf'', total_pages = 0, flagged_pages = [],
             error = Some ''Invalid or corrupt PDF: no objects found''\<rparr>]"
proof -
  have o: "fitz_open locked_pdf = Inr locked_doc \<and> is_encrypted locked_doc
           \<and> \<not> authenticate_empty locked_doc"
    by (simp add: locked_pdf_def locked_doc_def)
  have n: "path_name locked_pdf = ''b.pdf''"
    by (simp add: locked_pdf_def path_name_def)
  have l: "audit_pdf locked_pdf default_black_threshold 4 1 =
     (\<lparr>filename = ''b.pdf'', total_pages = 0, flagged_pages = [],
       error = Some ''PDF is encrypted and requires a password''\<rparr>,
      [DocOpen, DocAuthenticate, DocClose])"
    using audit_pdf_encrypted_contained[of locked_pdf locked_doc default_black_threshold 4 1] o n by simp
  have h: "dir_exists corpus_dir \<and> dir_is_dir corpus_dir
        \<and> dir_glob corpus_dir (if False then ''**/*.pdf'' else ''*.pdf'')
            = Inr [broken_pdf, locked_pdf, plain_pdf]
        \<and> (\<forall>g \<in> set [broken_pdf, locked_pdf, plain_pdf].
              is_file g = Inr True \<or> is_file g = Inr False)"
    by (simp add: corpus_dir_def broken_pdf_def locked_pdf_def plain_pdf_def)
  have f: "filter (\<lambda>g. is_file g = Inr True) [plain_pdf, locked_pdf, broken_pdf]
             = [plain_pdf, locked_pdf, broken_pdf]"
    by (simp add: broken_pdf_def locked_pdf_def plain_pdf_def)
  from audit_pdf_encrypted_contained[of _ _ default_black_threshold 4 1 corpus_dir False
        "[broken_pdf, locked_pdf, plain_pdf]"] h
  have "audit_directory corpus_dir False default_black_threshold 4 1 =
          Inr (map (\<lambda>g. fst (audit_pdf g default_black_threshold 4 1))
                 (filter (\<lambda>g. is_file g = Inr True)
                    (sort_key path_parts [broken_pdf, locked_pdf, plain_pdf])))"
    by blast
  then have "audit_directory corpus_dir False default_black_threshold 4 1 =
          Inr [fst (audit_pdf plain_pdf default_black_threshold 4 1), fst (audit_pdf locked_pdf default_black_threshold 4 1),
               fst (audit_pdf broken_pdf default_black_threshold 4 1)]"
    unfolding corpus_sorted f by simp
  then show ?thesis
    unfolding plain_report broken_report l by simp
qed

text \<open>
  The claim as the specification states it has a report for every other PDF of the batch.
  When \<^verbatim>\<open>is_file()\<close> raises \<^verbatim>\<open>PermissionError\<close> on one entry, the handler
  around the loop ends the batch: the files sorted after that entry get no report, here the
  encrypted \<^verbatim>\<open>b.pdf\<close> and the corrupt \<^verbatim>\<open>c.pdf\<close>.
\<close>

theorem audit_directory_permission_counterexample:
  "is_file locked_pdf = Inr True \<and> is_file broken_pdf = Inr True
   \<and> sort_key path_parts [plain_pdf, guarded_entry, locked_pdf, broken_pdf]
       = [plain_pdf, guarded_entry, locked_pdf, broken_pdf]
   \<and> audit_directory guarded_dir False default_black_threshold 4 1 =
       Inr [\<lparr>filename = ''a.pdf'', total_pages = 1,
             flagged_pages = [\<lparr>page_number = 1, black_rect_count = 1, overlap_count = 1,
                               confidence_score = 6,
                               heuristic = ''black_fill_rect_overlap_text''\<rparr>],
             error = None\<rparr>]"
proof -
  have s: "sort_key path_parts [plain_pdf, guarded_entry, locked_pdf, broken_pdf]
             = [plain_pdf, guarded_entry, locked_pdf, broken_pdf]"
    by (simp add: broken_pdf_def locked_pdf_def plain_pdf_def guarded_entry_def less_char_def
        less_eq_char_def)
  have f: "is_file plain_pdf = Inr True" "is_file guarded_entry = Inl PermissionError"
    "is_file locked_pdf = Inr True" "is_file broken_pdf = Inr True"
    by (simp_all add: broken_pdf_def locked_pdf_def plain_pdf_def guarded_entry_def)
  have l: "audit_files [] [plain_pdf, guarded_entry, locked_pdf, broken_pdf]
             default_black_threshold 4 1
           = ([fst (audit_pdf plain_pdf default_black_threshold 4 1)], Some PermissionError)"
    by (simp add: f)
  have "audit_directory guarded_dir False default_black_threshold 4 1 =
          (case audit_files []
                  (sort_key path_parts [plain_pdf, guarded_entry, locked_pdf, broken_pdf])
                  default_black_threshold 4 1 of
             (reports, None) \<Rightarrow> Inr reports
           | (reports, Some PermissionError) \<Rightarrow> Inr reports
           | (reports, Some e) \<Rightarrow> Inl e)"
    by (simp add: audit_directory_def guarded_dir_def del: sort_key_simps)
  then have "audit_directory guarded_dir False default_black_threshold 4 1 =
          Inr [fst (audit_pdf plain_pdf default_black_threshold 4 1)]"
    unfolding s l by simp
  then show ?thesis
    unfolding plain_report using s f by simp
qed

section \<open>OCR layers and scanned documents\<close>

lemma scan_ocr_pages_result:
  assumes "list_all (\<lambda>pg. (case get_images pg of Inr i \<Rightarrow> True | Inl e \<Rightarrow> False)
                          \<and> (case get_text pg of Inr t \<Rightarrow> True | Inl e \<Rightarrow> False)) pgs"
  shows "scan_ocr_pages doc acc tip ttp (int m) pgs =
           Inr (acc @ map (\<lambda>(page_num, pg). int page_num)
                        (filter (\<lambda>(page_num, pg). first_image_large doc pg \<and> page_has_text pg)
                           (enumerate m pgs)),
                tip + int (length (filter page_has_images pgs)),
                ttp + int (length (filter page_has_text pgs)))"
  using assms
proof (induction pgs arbitrary: acc tip ttp m)
  case Nil
  then show ?case by simp
next
  case (Cons pg pgs)
  from Cons.prems obtain images raw
    where im: "get_images pg = Inr images" and tx: "get_text pg = Inr raw"
      and rest: "list_all (\<lambda>pg. (case get_images pg of Inr i \<Rightarrow> True | Inl e \<Rightarrow> False)
                          \<and> (case get_text pg of Inr t \<Rightarrow> True | Inl e \<Rightarrow> False)) pgs"
    by (auto split: sum.splits)
  have nxt: "int m + 1 = int (Suc m)" by simp
  have hi: "page_has_images pg = (images \<noteq> [])"
    by (cases images) (simp_all add: page_has_images_def im)
  have ht: "page_has_text pg = (py_strip raw \<noteq> [])"
    by (simp add: page_has_text_def tx)
  have fl: "first_image_large doc pg =
     (case images of
        [] \<Rightarrow> False
      | xref # rest \<Rightarrow>
          (case extract_image doc xref of
             Inl e \<Rightarrow> False
           | Inr img \<Rightarrow> dict_get img ''width'' 0 > 1000 \<and> dict_get img ''height'' 0 > 1000))"
    by (simp add: first_image_large_def im split: list.splits)
  show ?case
    unfolding scan_ocr_pages.simps im tx sum.case Let_def nxt Cons.IH[OF rest]
    by (auto simp: hi ht fl split: list.splits sum.splits)
qed

lemma filter_keeps_all: "length (filter P xs) = length xs \<longleftrightarrow> list_all P xs"
proof (induction xs)
  case Nil
  then show ?case by simp
next
  case (Cons x xs)
  show ?case
  proof (cases "P x")
    case True
    with Cons show ?thesis by simp
  next
    case False
    have "length (filter P xs) < Suc (length xs)"
      using length_filter_le[of P xs] by (rule le_imp_less_Suc)
    then have "length (filter P xs) \<noteq> Suc (length xs)" by (rule less_imp_neq)
    then show ?thesis using False by simp
  qed
qed

lemma thirty_percent_exact:
  "real a > real_of_int (int b) * 0.3 \<longleftrightarrow> 3 * b < 10 * a" for a b :: nat
proof -
  have "real a > real_of_int (int b) * 0.3 \<longleftrightarrow> real (3 * b) < real (10 * a)" by auto
  also have "\<dots> \<longleftrightarrow> 3 * b < 10 * a" by (simp only: of_nat_less_iff)
  finally show ?thesis .
qed

lemmas ocr_eval = check_ocr_layer_def ocr_page_of_def sample_images_def dict_get_def
  py_strip_def is_py_space_def

text \<open>
  Claim C8, as amended. Provided reading the images and the text raises on no page,
  \<^verbatim>\<open>check_ocr_layer\<close> classifies a page as an OCR-layer page exactly when the first
  image of the page can be extracted and is more than 1000 wide and more than 1000 high and
  the text of the page is non-empty once white space is stripped; and it flags the document
  as scanned exactly when more than 30% of its pages are OCR-layer pages, or when every page
  has an image and such text.
\<close>

theorem check_ocr_layer_rule:
  assumes "pages_readable doc"
  shows "check_ocr_layer doc =
     (let ocr = map (\<lambda>(page_num, pg). int page_num)
                  (filter (\<lambda>(page_num, pg). first_image_large doc pg \<and> page_has_text pg)
                     (enumerate 1 (ocr_doc_pages doc)))
      in (ocr \<noteq> [], ocr,
          3 * length (ocr_doc_pages doc) < 10 * length ocr
          \<or> list_all (\<lambda>pg. page_has_images pg \<and> page_has_text pg) (ocr_doc_pages doc)))"
proof -
  have s: "scan_ocr_pages doc [] 0 0 1 (ocr_doc_pages doc) =
     Inr (map (\<lambda>(page_num, pg). int page_num)
            (filter (\<lambda>(page_num, pg). first_image_large doc pg \<and> page_has_text pg)
               (enumerate 1 (ocr_doc_pages doc))),
          int (length (filter page_has_images (ocr_doc_pages doc))),
          int (length (filter page_has_text (ocr_doc_pages doc))))"
    using scan_ocr_pages_result[OF assms[unfolded pages_readable_def], of doc "[]" 0 0 1]
    by simp
  have al: "list_all (\<lambda>pg. page_has_images pg \<and> page_has_text pg) xs
              \<longleftrightarrow> list_all page_has_images xs \<and> list_all page_has_text xs" for xs
    by (auto simp: list_all_iff)
  show ?thesis
    unfolding check_ocr_layer_def s
    by (simp add: Let_def thirty_percent_exact filter_keeps_all al del: of_nat_mult)
qed

theorem check_ocr_layer_rule_witness:
  "pages_readable forty_percent_doc \<and> check_ocr_layer forty_percent_doc = (True, [1, 2], True)"
proof -
  have r: "pages_readable forty_percent_doc"
    by (simp add: pages_readable_def forty_percent_doc_def ocr_page_of_def numeral_eq_Suc)
  show ?thesis
    using r check_ocr_layer_rule[OF r]
    by (simp add: forty_percent_doc_def ocr_page_of_def sample_images_def dict_get_def
        py_strip_def is_py_space_def first_image_large_def page_has_text_def
        page_has_images_def numeral_eq_Suc Let_def)
qed

text \<open>
  The claim as the specification states it takes an image of at least 1000 by 1000, any
  large image of the page, and at least 30% of the pages. A page whose only image is exactly
  1000 by 1000 is not an OCR-layer page; neither is a page whose second image is large while
  its first is small, nor a page whose text is white space; and a document with 3 OCR-layer
  pages out of 10, the other 7 without image or text, is not flagged as scanned.
\<close>

theorem check_ocr_layer_thresholds_counterexample:
  "check_ocr_layer exact_1000_doc = (False, [], False)
   \<and> check_ocr_layer second_image_doc = (False, [], False)
   \<and> check_ocr_layer blank_text_doc = (False, [], False)
   \<and> check_ocr_layer thirty_percent_doc = (True, [1, 2, 3], False)"
proof (intro conjI)
  show "check_ocr_layer exact_1000_doc = (False, [], False)"
    by (simp add: exact_1000_doc_def ocr_eval)
  show "check_ocr_layer second_image_doc = (False, [], False)"
    by (simp add: second_image_doc_def ocr_eval)
  show "check_ocr_layer blank_text_doc = (False, [], False)"
    by (simp add: blank_text_doc_def ocr_eval)
  show "check_ocr_layer thirty_percent_doc = (True, [1, 2, 3], False)"
    by (simp add: thirty_percent_doc_def ocr_eval numeral_eq_Suc)
qed

end
